theory Spec2Isabelle
  imports Main
begin

section \<open>Build monitor web application (local\_run/webapp/app.py)\<close>

text \<open>
  A shallow embedding of the request handlers of the Flask application and of the
  background build runner. The process-wide state of the program (the liveness marker
  \<^verbatim>\<open>LOCK_FILE\<close>, the durable log \<^verbatim>\<open>LOG_FILE\<close>, the in-memory deque \<^verbatim>\<open>log_buffer\<close>)
  and the part of the operating system the handlers talk to (the answer of the kernel
  to \<^verbatim>\<open>kill\<close>, the signals delivered, the threads and children started) form one
  record, \<open>world\<close>, that every handler takes and returns.
\<close>

subsection \<open>Python text primitives\<close>

text \<open>
  Strings are lists of 8-bit characters; the primitives below are those of CPython on
  ASCII text (a character above 0x7F is treated as an ordinary, non-blank, non-digit
  character). The bound that newer interpreters put on the number of digits
  \<^verbatim>\<open>int\<close> accepts (4300 by default, configurable) is left out.
\<close>

definition LF :: char where
  "LF = CHR 0x0A"

definition CR :: char where
  "CR = CHR 0x0D"

definition is_space :: "char \<Rightarrow> bool" where
  \<comment> \<open>\<^verbatim>\<open>str.isspace\<close> on ASCII: TAB, LF, VT, FF, CR, FS, GS, RS, US and the blank.\<close>
  "is_space c = (let n = (of_char c :: nat) in (9 \<le> n \<and> n \<le> 13) \<or> (28 \<le> n \<and> n \<le> 32))"

definition is_digit :: "char \<Rightarrow> bool" where
  "is_digit c = (let n = (of_char c :: nat) in 48 \<le> n \<and> n \<le> 57)"

definition digit_val :: "char \<Rightarrow> int" where
  "digit_val c = of_char c - 48"

definition py_strip :: "string \<Rightarrow> string" where
  \<comment> \<open>\<^verbatim>\<open>s.strip()\<close>\<close>
  "py_strip s = rev (dropWhile is_space (rev (dropWhile is_space s)))"

fun py_digits :: "int \<Rightarrow> string \<Rightarrow> int option" where
  \<comment> \<open>the rest of a decimal literal after a digit: digits, each optionally preceded by
      one underscore\<close>
  "py_digits acc [] = Some acc"
| "py_digits acc [c] = (if is_digit c then Some (acc * 10 + digit_val c) else None)"
| "py_digits acc (c # d # ds) =
     (if is_digit c then py_digits (acc * 10 + digit_val c) (d # ds)
      else if c = CHR ''_'' \<and> is_digit d then py_digits (acc * 10 + digit_val d) ds
      else None)"

definition py_decimal :: "string \<Rightarrow> int option" where
  \<comment> \<open>an unsigned decimal literal: it starts with a digit\<close>
  "py_decimal s =
     (case s of
        [] \<Rightarrow> None
      | c # cs \<Rightarrow> if is_digit c then py_digits (digit_val c) cs else None)"

definition py_int :: "string \<Rightarrow> int option" where
  \<comment> \<open>\<^verbatim>\<open>int(s)\<close>: surrounding blanks are ignored, one optional sign, then the literal;
      \<open>None\<close> is the \<^verbatim>\<open>ValueError\<close>\<close>
  "py_int s =
     (case py_strip s of
        [] \<Rightarrow> None
      | c # cs \<Rightarrow>
          if c = CHR ''-'' then map_option uminus (py_decimal cs)
          else if c = CHR ''+'' then py_decimal cs
          else py_decimal (c # cs))"

fun str_nat :: "nat \<Rightarrow> string" where
  "str_nat n =
     (if n < 10 then [char_of (48 + n)]
      else str_nat (n div 10) @ [char_of (48 + n mod 10)])"

declare str_nat.simps [simp del]

definition str_int :: "int \<Rightarrow> string" where
  \<comment> \<open>\<^verbatim>\<open>str(i)\<close> and the rendering of an integer inside an f-string\<close>
  "str_int i = (if i < 0 then CHR ''-'' # str_nat (nat (- i)) else str_nat (nat i))"

definition hex_digit :: "nat \<Rightarrow> char" where
  "hex_digit n = (if n < 10 then char_of (48 + n) else char_of (87 + n))"

definition repr_char :: "char \<Rightarrow> char \<Rightarrow> string" where
  \<comment> \<open>one character of \<^verbatim>\<open>repr(s)\<close>, inside the quote \<open>q\<close>\<close>
  "repr_char q c =
     (let n = (of_char c :: nat) in
      if c = q \<or> c = CHR 0x5C then [CHR 0x5C, c]
      else if n = 9 then [CHR 0x5C, CHR ''t'']
      else if n = 10 then [CHR 0x5C, CHR ''n'']
      else if n = 13 then [CHR 0x5C, CHR ''r'']
      else if n < 32 \<or> n = 127 then [CHR 0x5C, CHR ''x'', hex_digit (n div 16), hex_digit (n mod 16)]
      else [c])"

definition py_repr :: "string \<Rightarrow> string" where
  \<comment> \<open>\<^verbatim>\<open>repr(s)\<close>: single quotes, unless the text holds a single quote and no double one\<close>
  "py_repr s =
     (let q = (if CHR 0x27 \<in> set s \<and> CHR 0x22 \<notin> set s then CHR 0x22 else CHR 0x27)
      in q # concat (map (repr_char q) s) @ [q])"

subsection \<open>Exceptions\<close>

datatype os_error =
    ProcessLookupError string
  | PermissionError string
  | OtherOSError string

datatype exn =
    ValueError string
  | OverflowError string
  | OSError os_error

fun str_exn :: "exn \<Rightarrow> string" where
  \<comment> \<open>\<^verbatim>\<open>str(e)\<close>\<close>
  "str_exn (ValueError m) = m"
| "str_exn (OverflowError m) = m"
| "str_exn (OSError (ProcessLookupError m)) = m"
| "str_exn (OSError (PermissionError m)) = m"
| "str_exn (OSError (OtherOSError m)) = m"

fun is_OSError :: "exn \<Rightarrow> bool" where
  \<comment> \<open>\<^verbatim>\<open>except OSError\<close>\<close>
  "is_OSError (OSError _) = True"
| "is_OSError _ = False"

fun is_ProcessLookupError :: "exn \<Rightarrow> bool" where
  \<comment> \<open>\<^verbatim>\<open>except ProcessLookupError\<close>\<close>
  "is_ProcessLookupError (OSError (ProcessLookupError _)) = True"
| "is_ProcessLookupError _ = False"

definition int_of_text :: "string \<Rightarrow> exn + int" where
  \<comment> \<open>\<^verbatim>\<open>int(s)\<close> with its exception\<close>
  "int_of_text s =
     (case py_int s of
        None \<Rightarrow> Inl (ValueError (''invalid literal for int() with base 10: '' @ py_repr s))
      | Some i \<Rightarrow> Inr i)"

subsection \<open>Files\<close>

text \<open>
  A file of the model is its text together with what the operating system answers when
  the program opens it for reading or unlinks it: \<open>None\<close> when the call succeeds,
  the exception it raises otherwise (permissions, a sticky directory, undecodable bytes).
  A path holds \<open>Some\<close> file or nothing.
\<close>

record fs_file =
  content :: string
  read_fault :: "exn option"
  unlink_fault :: "exn option"

definition read_text :: "fs_file \<Rightarrow> exn + string" where
  \<comment> \<open>\<^verbatim>\<open>with open(p, 'r') as f: f.read()\<close>\<close>
  "read_text f = (case read_fault f of Some e \<Rightarrow> Inl e | None \<Rightarrow> Inr (content f))"

fun universal_newlines :: "string \<Rightarrow> string" where
  \<comment> \<open>text mode: CR LF and a lone CR are read as LF\<close>
  "universal_newlines [] = []"
| "universal_newlines [c] = [if c = CR then LF else c]"
| "universal_newlines (c # d # ds) =
     (if c = CR \<and> d = LF then LF # universal_newlines ds
      else (if c = CR then LF else c) # universal_newlines (d # ds))"

fun split_lines :: "string \<Rightarrow> string \<Rightarrow> string list" where
  \<comment> \<open>cut after every LF; \<open>cur\<close> is the line read so far\<close>
  "split_lines cur [] = (if cur = [] then [] else [cur])"
| "split_lines cur (c # cs) =
     (if c = LF then (cur @ [c]) # split_lines [] cs else split_lines (cur @ [c]) cs)"

definition readlines :: "fs_file \<Rightarrow> exn + string list" where
  \<comment> \<open>\<^verbatim>\<open>with open(p, 'r') as f: f.readlines()\<close>\<close>
  "readlines f =
     (case read_text f of
        Inl e \<Rightarrow> Inl e
      | Inr s \<Rightarrow> Inr (split_lines [] (universal_newlines s)))"

definition new_file :: "string \<Rightarrow> fs_file" where
  \<comment> \<open>a file the program itself has just created\<close>
  "new_file s = \<lparr>content = s, read_fault = None, unlink_fault = None\<rparr>"

subsection \<open>The bounded log buffer\<close>

definition MAX_LOG_LINES :: nat where
  "MAX_LOG_LINES = 1000"

definition deque_append :: "'a list \<Rightarrow> 'a \<Rightarrow> 'a list" where
  \<comment> \<open>\<^verbatim>\<open>deque(maxlen=MAX_LOG_LINES).append\<close>: append on the right, then drop the
      leftmost entry when the bound is exceeded\<close>
  "deque_append xs x =
     (let ys = xs @ [x] in if length ys > MAX_LOG_LINES then tl ys else ys)"

definition appends :: "'a list \<Rightarrow> 'a list \<Rightarrow> 'a list" where
  \<comment> \<open>a run of \<^verbatim>\<open>append\<close> calls, in order\<close>
  "appends xs ls = foldl deque_append xs ls"

definition py_slice_from :: "'a list \<Rightarrow> int \<Rightarrow> 'a list" where
  \<comment> \<open>the Python slice \<^verbatim>\<open>xs[i:]\<close>: a negative start counts from the end, and every
      start is clamped into the list\<close>
  "py_slice_from xs i =
     (let n = int (length xs)
      in drop (nat (if i < 0 then max (n + i) 0 else min i n)) xs)"

subsection \<open>The state of the program and of its surroundings\<close>

record world =
  lock_file :: "fs_file option"
  log_file :: "fs_file option"
  log_buffer :: "string list"
  sys_kill :: "int \<Rightarrow> int \<Rightarrow> os_error option"
  signals :: "(int \<times> int) list"
  threads_started :: nat
  children_spawned :: nat

text \<open>
  \<open>sys_kill w pid sig\<close> is the answer of the kernel to \<^verbatim>\<open>kill(pid, sig)\<close> when the
  program makes that call: \<open>None\<close> for success, otherwise the error. No handler makes
  two calls with the same arguments, and the answers for signal 0 and for signal 15 are
  independent, since the target may exit between the probe and the signal.
  \<open>signals\<close> lists the signals delivered (signal 0 delivers nothing).
\<close>

definition os_kill :: "world \<Rightarrow> int \<Rightarrow> int \<Rightarrow> exn + world" where
  \<comment> \<open>\<^verbatim>\<open>os.kill(pid, sig)\<close>: the pid must fit the C type \<^verbatim>\<open>pid_t\<close> (32 bits)\<close>
  "os_kill w pid sig =
     (if pid < - (2 ^ 31) \<or> 2 ^ 31 \<le> pid
      then Inl (OverflowError ''signed integer is greater than maximum'')
      else case sys_kill w pid sig of
             Some e \<Rightarrow> Inl (OSError e)
           | None \<Rightarrow> Inr (if sig = 0 then w else w\<lparr>signals := signals w @ [(pid, sig)]\<rparr>))"

subsection \<open>get\_build\_status\<close>

datatype build_status =
    Running int
  | StaleLock int
  | Error string
  | Idle

definition read_pid :: "fs_file \<Rightarrow> exn + int" where
  \<comment> \<open>\<^verbatim>\<open>with open(LOCK_FILE, 'r') as f: pid = int(f.read().strip())\<close>\<close>
  "read_pid f =
     (case read_text f of
        Inl e \<Rightarrow> Inl e
      | Inr s \<Rightarrow> int_of_text (py_strip s))"

definition get_build_status :: "world \<Rightarrow> build_status" where
  "get_build_status w =
     (case lock_file w of
        None \<Rightarrow> Idle
      | Some f \<Rightarrow>
          (case read_pid f of
             Inl e \<Rightarrow> Error (str_exn e)
           | Inr pid \<Rightarrow>
               (case os_kill w pid 0 of
                  Inr _ \<Rightarrow> Running pid
                | Inl e \<Rightarrow> if is_OSError e then StaleLock pid else Error (str_exn e))))"

subsection \<open>Responses\<close>

datatype jval =
    JBool bool
  | JStr string
  | JInt int
  | JLines "string list"

datatype response =
    Json nat "(string \<times> jval) list"
  | Unhandled exn

text \<open>
  \<open>Json code body\<close> is \<^verbatim>\<open>jsonify(body), code\<close> (200 when the handler gives no code);
  \<open>Unhandled e\<close> is an exception that leaves the handler.
\<close>

fun status_code :: "response \<Rightarrow> nat" where
  "status_code (Json c _) = c"
| "status_code (Unhandled _) = 500"

fun field :: "string \<Rightarrow> response \<Rightarrow> jval option" where
  "field k (Json _ body) = map_of body k"
| "field k (Unhandled _) = None"

definition logs_of :: "response \<Rightarrow> string list" where
  "logs_of r = (case field ''logs'' r of Some (JLines ls) \<Rightarrow> ls | _ \<Rightarrow> [])"

subsection \<open>run\_build\_async\<close>

text \<open>
  What the build script does is given to the runner: either \<^verbatim>\<open>Popen\<close> raises, or the
  child runs, and then \<open>stdout_lines\<close> is the sequence of values \<^verbatim>\<open>readline\<close> returns, each
  with the answer of the operating system to the append of that line to \<^verbatim>\<open>LOG_FILE\<close>
  (\<open>None\<close>: written; \<open>Some e\<close>: \<^verbatim>\<open>open\<close> or \<^verbatim>\<open>write\<close> raises \<open>e\<close>), and
  \<open>returncode\<close> is the exit code. The empty string is the end of the stream.
\<close>

datatype child =
    SpawnFails exn
  | Child (stdout_lines: "(string \<times> exn option) list") (returncode: int)

definition append_log :: "world \<Rightarrow> string \<Rightarrow> exn option \<Rightarrow> exn + world" where
  \<comment> \<open>\<^verbatim>\<open>with open(LOG_FILE, 'a') as f: f.write(line)\<close>\<close>
  "append_log w line fault =
     (case fault of
        Some e \<Rightarrow> Inl e
      | None \<Rightarrow>
          Inr (w\<lparr>log_file :=
                 Some (case log_file w of
                         None \<Rightarrow> new_file line
                       | Some f \<Rightarrow> f\<lparr>content := content f @ line\<rparr>)\<rparr>))"

fun stream_output :: "world \<Rightarrow> (string \<times> exn option) list \<Rightarrow> exn option \<times> world" where
  \<comment> \<open>the \<^verbatim>\<open>for line in iter(process.stdout.readline, '')\<close> loop; the first component
      is the exception that ended it, if any\<close>
  "stream_output w [] = (None, w)"
| "stream_output w ((line, fault) # rest) =
     (if line = [] then (None, w)
      else
        let w1 = w\<lparr>log_buffer := deque_append (log_buffer w) line\<rparr>
        in case append_log w1 line fault of
             Inl e \<Rightarrow> (Some e, w1)
           | Inr w2 \<Rightarrow> stream_output w2 rest)"

definition start_marker :: "string \<Rightarrow> string" where
  "start_marker ts = ''['' @ ts @ ''] Starting build process...'' @ [LF]"

definition completed_marker :: "string \<Rightarrow> string" where
  "completed_marker ts = [LF] @ ''['' @ ts @ ''] Build completed successfully'' @ [LF]"

definition failed_marker :: "string \<Rightarrow> int \<Rightarrow> string" where
  "failed_marker ts rc =
     [LF] @ ''['' @ ts @ ''] Build failed with exit code '' @ str_int rc @ [LF]"

definition error_marker :: "string \<Rightarrow> exn \<Rightarrow> string" where
  "error_marker ts e = [LF] @ ''['' @ ts @ ''] Build error: '' @ str_exn e @ [LF]"

definition run_build_async :: "string \<Rightarrow> string \<Rightarrow> child \<Rightarrow> world \<Rightarrow> world" where
  \<comment> \<open>\<open>ts0\<close> and \<open>ts1\<close> are the clock readings at the start and at the final marker\<close>
  "run_build_async ts0 ts1 ch w =
     (let w0 = w\<lparr>log_buffer := deque_append [] (start_marker ts0)\<rparr>
      in case ch of
           SpawnFails e \<Rightarrow> w0\<lparr>log_buffer := deque_append (log_buffer w0) (error_marker ts1 e)\<rparr>
         | Child out rc \<Rightarrow>
             (case stream_output (w0\<lparr>children_spawned := Suc (children_spawned w0)\<rparr>) out of
                (Some e, w1) \<Rightarrow>
                  w1\<lparr>log_buffer := deque_append (log_buffer w1) (error_marker ts1 e)\<rparr>
              | (None, w1) \<Rightarrow>
                  if rc = 0
                  then w1\<lparr>log_buffer := deque_append (log_buffer w1) (completed_marker ts1)\<rparr>
                  else w1\<lparr>log_buffer := deque_append (log_buffer w1) (failed_marker ts1 rc)\<rparr>))"

subsection \<open>The request handlers\<close>

definition snapshot :: "string list \<Rightarrow> int \<Rightarrow> string list" where
  \<comment> \<open>\<^verbatim>\<open>list(log_buffer)[-lines:] if log_buffer else []\<close>\<close>
  "snapshot buf lines = (if buf \<noteq> [] then py_slice_from buf (- lines) else [])"

definition lines_param :: "string option \<Rightarrow> int" where
  \<comment> \<open>\<^verbatim>\<open>request.args.get('lines', 100, type=int)\<close>: the default also when the text
      is no integer\<close>
  "lines_param arg =
     (case arg of
        None \<Rightarrow> 100
      | Some s \<Rightarrow> (case py_int s of None \<Rightarrow> 100 | Some n \<Rightarrow> n))"

definition api_logs :: "string \<Rightarrow> string option \<Rightarrow> world \<Rightarrow> response \<times> world" where
  "api_logs ts arg w =
     (let lines = min (lines_param arg) (int MAX_LOG_LINES);
          recent_logs = snapshot (log_buffer w) lines;
          recent_logs =
            (if recent_logs = [] then
               (case log_file w of
                  None \<Rightarrow> recent_logs
                | Some f \<Rightarrow>
                    (case readlines f of
                       Inl e \<Rightarrow> recent_logs
                     | Inr all_lines \<Rightarrow> py_slice_from all_lines (- lines)))
             else recent_logs)
      in (Json 200 [(''logs'', JLines recent_logs),
                    (''total_lines'', JInt (int (length (log_buffer w)))),
                    (''timestamp'', JStr ts)], w))"

definition unlink :: "fs_file \<Rightarrow> exn option" where
  \<comment> \<open>\<^verbatim>\<open>Path.unlink\<close> on an existing file: the exception, if it raises\<close>
  "unlink f = unlink_fault f"

definition api_build :: "world \<Rightarrow> response \<times> world" where
  "api_build w =
     (case get_build_status w of
        Running pid \<Rightarrow>
          (Json 409 [(''success'', JBool False),
                     (''message'', JStr ''A build is already running''),
                     (''pid'', JInt pid)], w)
      | StaleLock pid \<Rightarrow>
          (Json 409 [(''success'', JBool False),
                     (''message'', JStr ''Stale lock file detected. Please clean it manually.''),
                     (''pid'', JInt pid)], w)
      | _ \<Rightarrow>
          (case (case log_file w of None \<Rightarrow> None | Some f \<Rightarrow> unlink f) of
             Some e \<Rightarrow> (Unhandled e, w)
           | None \<Rightarrow>
               (Json 200 [(''success'', JBool True),
                          (''message'', JStr ''Build started successfully'')],
                w\<lparr>log_file := None, threads_started := Suc (threads_started w)\<rparr>)))"

definition SIGTERM :: int where
  "SIGTERM = 15"

definition api_stop_build :: "string \<Rightarrow> world \<Rightarrow> response \<times> world" where
  "api_stop_build ts w =
     (case get_build_status w of
        Running pid \<Rightarrow>
          (case os_kill w pid SIGTERM of
             Inr w1 \<Rightarrow>
               (Json 200 [(''success'', JBool True),
                          (''message'', JStr (''Stop signal sent to build process (PID: ''
                                               @ str_int pid @ '')''))],
                w1\<lparr>log_buffer :=
                     deque_append (log_buffer w1)
                       ([LF] @ ''['' @ ts @ ''] Build stop requested (PID: ''
                        @ str_int pid @ '')'' @ [LF])\<rparr>)
           | Inl e \<Rightarrow>
               if is_ProcessLookupError e
               then (Json 404 [(''success'', JBool False),
                               (''message'', JStr ''Build process not found'')], w)
               else (Json 500 [(''success'', JBool False),
                               (''message'', JStr (''Failed to stop build: '' @ str_exn e))], w))
      | _ \<Rightarrow>
          (Json 409 [(''success'', JBool False),
                     (''message'', JStr ''No build is currently running'')], w))"

definition api_clear_lock :: "world \<Rightarrow> response \<times> world" where
  "api_clear_lock w =
     (case get_build_status w of
        Running pid \<Rightarrow>
          (Json 409 [(''success'', JBool False),
                     (''message'', JStr ''Cannot clear lock while build is running'')], w)
      | _ \<Rightarrow>
          (case lock_file w of
             Some f \<Rightarrow>
               (case unlink f of
                  None \<Rightarrow>
                    (Json 200 [(''success'', JBool True),
                               (''message'', JStr ''Lock file cleared successfully'')],
                     w\<lparr>lock_file := None\<rparr>)
                | Some e \<Rightarrow>
                    (Json 500 [(''success'', JBool False),
                               (''message'', JStr (''Failed to clear lock: '' @ str_exn e))], w))
           | None \<Rightarrow>
               (Json 200 [(''success'', JBool True),
                          (''message'', JStr ''No lock file to clear'')], w)))"

subsection \<open>Concrete surroundings\<close>

definition world0 :: world where
  \<comment> \<open>no marker, no log, an empty buffer, and a kernel that finds every process\<close>
  "world0 = \<lparr>lock_file = None, log_file = None, log_buffer = [],
             sys_kill = (\<lambda>pid sig. None), signals = [],
             threads_started = 0, children_spawned = 0\<rparr>"

definition no_process :: "int \<Rightarrow> int \<Rightarrow> os_error option" where
  \<comment> \<open>a kernel that finds no process\<close>
  "no_process pid sig = Some (ProcessLookupError ''[Errno 3] No such process'')"

definition sticky :: "fs_file \<Rightarrow> fs_file" where
  \<comment> \<open>the same file, owned by another user in a sticky directory: it cannot be unlinked\<close>
  "sticky f = f\<lparr>unlink_fault := Some (OSError (PermissionError ''[Errno 1] Operation not permitted''))\<rparr>"

definition exits_before_signal :: "int \<Rightarrow> int \<Rightarrow> os_error option" where
  \<comment> \<open>a kernel that finds the process at the probe and no longer at the next signal\<close>
  "exits_before_signal pid sig =
     (if sig = 0 then None else Some (ProcessLookupError ''[Errno 3] No such process''))"

definition disk_full :: exn where
  "disk_full = OSError (OtherOSError ''[Errno 28] No space left on device'')"

section \<open>Properties\<close>

lemmas eval_defs =
  world0_def no_process_def sticky_def get_build_status_def read_pid_def read_text_def
  new_file_def int_of_text_def py_int_def py_strip_def is_space_def LF_def CR_def
  py_decimal_def is_digit_def digit_val_def os_kill_def py_repr_def repr_char_def
  unlink_def SIGTERM_def Let_def

subsection \<open>The liveness probe\<close>

text \<open>
  Claim C1. \<open>get_build_status\<close> classifies every state of the marker file as follows.
  No marker: \<open>Idle\<close>. A readable marker whose stripped text is no integer literal:
  \<open>Error\<close> with the message of the \<^verbatim>\<open>ValueError\<close>. A marker that holds the integer
  \<open>pid\<close>: \<open>Running pid\<close> when the probe \<^verbatim>\<open>os.kill(pid, 0)\<close> returns, and
  \<open>StaleLock pid\<close> when the probe raises an \<^verbatim>\<open>OSError\<close>.
\<close>

theorem get_build_status_classifies:
  "(lock_file w = None \<longrightarrow> get_build_status w = Idle)
   \<and> (\<forall>f. lock_file w = Some f \<and> read_fault f = None \<and> py_int (py_strip (content f)) = None
        \<longrightarrow> get_build_status w =
              Error (''invalid literal for int() with base 10: '' @ py_repr (py_strip (content f))))
   \<and> (\<forall>f pid w'. lock_file w = Some f \<and> read_pid f = Inr pid \<and> os_kill w pid 0 = Inr w'
        \<longrightarrow> get_build_status w = Running pid)
   \<and> (\<forall>f pid e. lock_file w = Some f \<and> read_pid f = Inr pid \<and> os_kill w pid 0 = Inl (OSError e)
        \<longrightarrow> get_build_status w = StaleLock pid)"
  by (simp add: get_build_status_def read_pid_def read_text_def int_of_text_def)

theorem get_build_status_classifies_witness:
  "get_build_status world0 = Idle
   \<and> get_build_status (world0\<lparr>lock_file := Some (new_file ''abc'')\<rparr>)
       = Error (''invalid literal for int() with base 10: '' @ [CHR 0x27] @ ''abc'' @ [CHR 0x27])
   \<and> get_build_status (world0\<lparr>lock_file := Some (new_file ''4321'')\<rparr>) = Running 4321
   \<and> get_build_status (world0\<lparr>lock_file := Some (new_file ''4321''), sys_kill := no_process\<rparr>)
       = StaleLock 4321"
  using get_build_status_classifies [of world0]
    get_build_status_classifies [of "world0\<lparr>lock_file := Some (new_file ''abc'')\<rparr>"]
    get_build_status_classifies [of "world0\<lparr>lock_file := Some (new_file ''4321'')\<rparr>"]
    get_build_status_classifies
      [of "world0\<lparr>lock_file := Some (new_file ''4321''), sys_kill := no_process\<rparr>"]
  by (simp add: eval_defs)

lemma running_pid_fits:
  "get_build_status w = Running pid \<Longrightarrow> - (2 ^ 31) \<le> pid \<and> pid < 2 ^ 31"
  by (auto simp: get_build_status_def os_kill_def
           split: option.splits sum.splits if_splits)

lemma idle_iff_no_marker: "get_build_status w = Idle \<longleftrightarrow> lock_file w = None"
  by (auto simp: get_build_status_def split: option.splits sum.splits if_splits)

subsection \<open>Starting a build\<close>

text \<open>
  Claim C2. When the probe reports \<open>Running pid\<close> or \<open>StaleLock pid\<close>, \<open>api_build\<close>
  answers 409 with \<open>success = False\<close>, a message and the pid, and returns the world it
  was given: the buffer, the durable log, the number of threads started and the number
  of children spawned are all unchanged.
\<close>

theorem api_build_refuses_running_or_stale:
  "get_build_status w = Running pid \<or> get_build_status w = StaleLock pid \<Longrightarrow>
   \<exists>msg. api_build w =
          (Json 409 [(''success'', JBool False), (''message'', JStr msg), (''pid'', JInt pid)], w)"
  by (auto simp: api_build_def)

theorem api_build_refuses_running_or_stale_witness:
  "(\<exists>msg. api_build (world0\<lparr>lock_file := Some (new_file ''4321'')\<rparr>) =
      (Json 409 [(''success'', JBool False), (''message'', JStr msg), (''pid'', JInt 4321)],
       world0\<lparr>lock_file := Some (new_file ''4321'')\<rparr>))
   \<and> (\<exists>msg. api_build (world0\<lparr>lock_file := Some (new_file ''4321''), sys_kill := no_process\<rparr>) =
      (Json 409 [(''success'', JBool False), (''message'', JStr msg), (''pid'', JInt 4321)],
       world0\<lparr>lock_file := Some (new_file ''4321''), sys_kill := no_process\<rparr>))"
proof -
  have r: "get_build_status (world0\<lparr>lock_file := Some (new_file ''4321'')\<rparr>) = Running 4321"
    by (simp add: eval_defs)
  have s: "get_build_status (world0\<lparr>lock_file := Some (new_file ''4321''), sys_kill := no_process\<rparr>)
           = StaleLock 4321"
    by (simp add: eval_defs)
  show ?thesis
    using api_build_refuses_running_or_stale [OF disjI1 [OF r]]
      api_build_refuses_running_or_stale [OF disjI2 [OF s]]
    by blast
qed

text \<open>
  Claim C3. With a marker whose text is no integer the probe reports \<open>Error\<close>, and
  \<open>api_build\<close> does not refuse: it answers 200 with \<open>success = True\<close> and starts the
  build thread; the message of the probe is in no part of the answer.
\<close>

theorem api_build_starts_on_corrupt_marker:
  "get_build_status (world0\<lparr>lock_file := Some (new_file ''abc'')\<rparr>)
     = Error (''invalid literal for int() with base 10: '' @ [CHR 0x27] @ ''abc'' @ [CHR 0x27])
   \<and> api_build (world0\<lparr>lock_file := Some (new_file ''abc'')\<rparr>)
     = (Json 200 [(''success'', JBool True), (''message'', JStr ''Build started successfully'')],
        world0\<lparr>lock_file := Some (new_file ''abc''), threads_started := 1\<rparr>)"
  by (simp add: eval_defs api_build_def)

subsection \<open>The bounded buffer\<close>

lemma length_deque_append:
  "length xs \<le> MAX_LOG_LINES \<Longrightarrow>
   length (deque_append xs x) = min (Suc (length xs)) MAX_LOG_LINES"
  by (auto simp: deque_append_def Let_def MAX_LOG_LINES_def)

lemma length_appends:
  "length xs \<le> MAX_LOG_LINES \<Longrightarrow>
   length (appends xs ls) = min (length xs + length ls) MAX_LOG_LINES"
proof (induction ls arbitrary: xs)
  case Nil
  then show ?case by (simp add: appends_def)
next
  case (Cons l ls)
  have "length (deque_append xs l) \<le> MAX_LOG_LINES"
    using Cons.prems by (simp add: length_deque_append)
  from Cons.IH [OF this] Cons.prems show ?case
    by (simp add: appends_def length_deque_append)
qed

lemma deque_append_drop:
  assumes "length xs \<le> MAX_LOG_LINES"
  shows "deque_append xs x = drop (length (xs @ [x]) - MAX_LOG_LINES) (xs @ [x])"
  using assms
  by (cases xs) (auto simp: deque_append_def Let_def MAX_LOG_LINES_def drop_Cons')

text \<open>First in, first out: a run of appends keeps the most recent \<open>MAX_LOG_LINES\<close> lines.\<close>

lemma appends_drop:
  "length xs \<le> MAX_LOG_LINES \<Longrightarrow>
   appends xs ls = drop (length (xs @ ls) - MAX_LOG_LINES) (xs @ ls)"
proof (induction ls arbitrary: xs)
  case Nil
  then show ?case by (simp add: appends_def)
next
  case (Cons l ls)
  have le: "length (deque_append xs l) \<le> MAX_LOG_LINES"
    using Cons.prems by (simp add: length_deque_append)
  have "appends xs (l # ls) = appends (deque_append xs l) ls"
    by (simp add: appends_def)
  also have "\<dots> = drop (length (deque_append xs l @ ls) - MAX_LOG_LINES) (deque_append xs l @ ls)"
    by (rule Cons.IH [OF le])
  also have "\<dots> = drop (length (xs @ l # ls) - MAX_LOG_LINES) (xs @ l # ls)"
  proof -
    define b where "b = length (xs @ [l]) - MAX_LOG_LINES"
    have b: "b \<le> length (xs @ [l])" by (simp add: b_def)
    have d: "deque_append xs l = drop b (xs @ [l])"
      unfolding b_def by (rule deque_append_drop [OF Cons.prems])
    have "b - length (xs @ [l]) = 0"
      using b by simp
    then have "drop b (xs @ [l]) @ ls = drop b ((xs @ [l]) @ ls)"
      by (metis drop_append drop_0)
    then have e: "deque_append xs l @ ls = drop b (xs @ l # ls)"
      using d by simp
    have "length (drop b (xs @ l # ls)) - MAX_LOG_LINES + b = length (xs @ l # ls) - MAX_LOG_LINES"
      using Cons.prems by (simp add: b_def)
    then have "drop (length (drop b (xs @ l # ls)) - MAX_LOG_LINES) (drop b (xs @ l # ls))
               = drop (length (xs @ l # ls) - MAX_LOG_LINES) (xs @ l # ls)"
      by (simp only: drop_drop)
    then show ?thesis
      by (simp only: e)
  qed
  finally show ?case .
qed

subsection \<open>Reading the log\<close>

lemma py_slice_from_zero: "py_slice_from xs 0 = xs"
  by (simp add: py_slice_from_def)

text \<open>For a positive count the buffer read is the tail of that length.\<close>

lemma snapshot_positive:
  "1 \<le> k \<Longrightarrow> snapshot buf k = drop (length buf - nat k) buf"
  by (cases buf)
     (auto simp: snapshot_def py_slice_from_def Let_def max_def nat_diff_distrib'
                 nat_add_distrib drop_Cons' split: if_splits)

text \<open>After any run of appends to the cleared buffer, a read of \<open>MAX_LOG_LINES\<close> lines
  returns the last \<open>MAX_LOG_LINES\<close> of them, in order.\<close>

lemma snapshot_after_appends:
  "snapshot (appends [] ls) (int MAX_LOG_LINES) = drop (length ls - MAX_LOG_LINES) ls"
proof -
  have a: "appends [] ls = drop (length ls - MAX_LOG_LINES) ls"
    using appends_drop [of "[]" ls] by simp
  have "1 \<le> int MAX_LOG_LINES" by (simp add: MAX_LOG_LINES_def)
  then have "snapshot (appends [] ls) (int MAX_LOG_LINES)
      = drop (length (appends [] ls) - MAX_LOG_LINES) (appends [] ls)"
    by (simp add: snapshot_positive)
  also have "\<dots> = appends [] ls"
    by (simp add: length_appends)
  finally show ?thesis using a by simp
qed

lemma length_py_slice_tail:
  "1 \<le> k \<Longrightarrow> length (py_slice_from xs (- k)) = min (nat k) (length xs)"
  by (auto simp: py_slice_from_def Let_def max_def)

text \<open>For a positive count the answer holds at most \<open>MAX_LOG_LINES\<close> lines, on both paths.\<close>

lemma api_logs_cap_positive:
  assumes "1 \<le> lines_param arg" and "length (log_buffer w) \<le> MAX_LOG_LINES"
  shows "length (logs_of (fst (api_logs ts arg w))) \<le> MAX_LOG_LINES"
proof -
  define k where "k = min (lines_param arg) (int MAX_LOG_LINES)"
  have k: "1 \<le> k" "nat k \<le> MAX_LOG_LINES"
    using assms(1) by (simp_all add: k_def MAX_LOG_LINES_def)
  have s: "length (snapshot (log_buffer w) k) \<le> MAX_LOG_LINES"
    using k assms(2) by (simp add: snapshot_positive)
  have t: "length (py_slice_from xs (- k)) \<le> MAX_LOG_LINES" for xs :: "string list"
    using k by (simp add: length_py_slice_tail)
  show ?thesis
    using s t
    by (simp add: api_logs_def logs_of_def Let_def k_def [symmetric]
             split: option.splits sum.splits)
qed

lemma universal_newlines_LF: "universal_newlines (replicate n LF) = replicate n LF"
proof (induction n rule: less_induct)
  case (less n)
  show ?case
  proof (cases n)
    case 0
    then show ?thesis by simp
  next
    case (Suc m)
    show ?thesis
    proof (cases m)
      case 0
      with Suc show ?thesis by (simp add: LF_def CR_def)
    next
      case (Suc k)
      have "universal_newlines (replicate (Suc k) LF) = replicate (Suc k) LF"
        using less.IH [of "Suc k"] \<open>n = Suc m\<close> Suc by simp
      then show ?thesis
        using \<open>n = Suc m\<close> Suc by (simp add: LF_def CR_def)
    qed
  qed
qed

lemma split_lines_LF: "split_lines [] (replicate n LF) = replicate n [LF]"
  by (induction n) simp_all

lemma total_lines_field:
  "field ''total_lines'' (fst (api_logs ts arg w)) = Some (JInt (int (length (log_buffer w))))"
  by (simp add: api_logs_def Let_def)

text \<open>
  Claim C4. The request \<^verbatim>\<open>lines=0\<close> on a buffer of two lines: the claim gives
  \<open>min 0 (min 1000 2) = 0\<close> lines, and \<open>api_logs\<close> returns both, since the slice
  \<^verbatim>\<open>[-0:]\<close> is the whole list.
\<close>

theorem api_logs_zero_lines_returns_whole_buffer:
  "logs_of (fst (api_logs ''t'' (Some ''0'') (world0\<lparr>log_buffer := [''a'', ''b'']\<rparr>)))
     = [''a'', ''b'']
   \<and> min 0 (min (int MAX_LOG_LINES)
               (int (length (log_buffer (world0\<lparr>log_buffer := [''a'', ''b'']\<rparr>))))) = 0"
  by (simp add: api_logs_def lines_param_def snapshot_def py_slice_from_def logs_of_def
                eval_defs MAX_LOG_LINES_def)

text \<open>
  Claim C8. The request \<^verbatim>\<open>lines=0\<close> with an empty buffer and a durable log of 1001
  lines: the fallback slice \<^verbatim>\<open>all_lines[-0:]\<close> is the whole file, and the answer holds
  1001 lines, more than the cap of 1000.
\<close>

theorem api_logs_zero_lines_exceeds_cap:
  "length (logs_of (fst (api_logs ''t'' (Some ''0'')
      (world0\<lparr>log_file := Some (new_file (replicate 1001 LF))\<rparr>)))) = 1001"
proof -
  have "readlines (new_file (replicate 1001 LF)) = Inr (replicate 1001 [LF])"
    by (simp add: readlines_def read_text_def new_file_def universal_newlines_LF split_lines_LF)
  moreover have "lines_param (Some ''0'') = 0"
    by (simp add: lines_param_def eval_defs)
  ultimately show ?thesis
    by (simp add: api_logs_def snapshot_def logs_of_def world0_def py_slice_from_zero)
qed

text \<open>
  Claim C9, as stated, fails: after 1001 appends to the cleared buffer the field
  \<^verbatim>\<open>total_lines\<close> is 1000, not 1001.
\<close>

theorem total_lines_misses_evicted_lines:
  "field ''total_lines'' (fst (api_logs ''t'' None
      (world0\<lparr>log_buffer := appends [] (replicate 1001 ''x'')\<rparr>))) = Some (JInt 1000)
   \<and> length (replicate 1001 ''x'') = 1001"
  by (simp add: total_lines_field length_appends MAX_LOG_LINES_def)

text \<open>
  Claim C9, amended. The field \<^verbatim>\<open>total_lines\<close> is the number of lines the buffer holds
  now: after the lines \<open>ls\<close> have been appended to the cleared buffer it is
  \<open>min (length ls) 1000\<close>, and evicted lines are not counted.
\<close>

theorem total_lines_is_buffer_length:
  "field ''total_lines'' (fst (api_logs ts arg w)) = Some (JInt (int (length (log_buffer w))))
   \<and> field ''total_lines'' (fst (api_logs ts arg (w\<lparr>log_buffer := appends [] ls\<rparr>)))
       = Some (JInt (int (min (length ls) MAX_LOG_LINES)))"
  by (simp add: total_lines_field length_appends)

subsection \<open>The build runner\<close>

lemma stream_output_step:
  "l \<noteq> [] \<Longrightarrow>
   stream_output w ((l, None) # rest) =
   stream_output
     (w\<lparr>log_buffer := deque_append (log_buffer w) l,
        log_file := Some (case log_file w of None \<Rightarrow> new_file l
                          | Some f \<Rightarrow> f\<lparr>content := content f @ l\<rparr>)\<rparr>) rest"
  by (simp add: append_log_def Let_def)

lemma stream_output_fault:
  "\<forall>x \<in> set pre. fst x \<noteq> [] \<and> snd x = None \<Longrightarrow> line \<noteq> [] \<Longrightarrow>
   fst (stream_output w (pre @ (line, Some e) # post)) = Some e
   \<and> log_buffer (snd (stream_output w (pre @ (line, Some e) # post)))
       = appends (log_buffer w) (map fst pre @ [line])"
proof (induction pre arbitrary: w)
  case Nil
  then show ?case by (simp add: append_log_def appends_def Let_def)
next
  case (Cons x pre)
  obtain l f where x: "x = (l, f)" by (cases x)
  with Cons.prems have l: "l \<noteq> []" and f: "f = None" by auto
  have rest: "\<forall>x \<in> set pre. fst x \<noteq> [] \<and> snd x = None"
    using Cons.prems by simp
  show ?case
    unfolding x f
    by (simp only: append_Cons stream_output_step [OF l] Cons.IH [OF rest Cons.prems(2)])
       (simp add: appends_def)
qed

text \<open>
  Claim C5, as stated, fails: the child prints two lines and exits with code 0, and
  the append of the first line to the durable log raises. The second line is never
  appended to the buffer, and neither is the completion marker.
\<close>

theorem log_write_failure_stops_streaming:
  "log_buffer (run_build_async ''t0'' ''t1''
       (Child [(''a\<newline>'', Some disk_full), (''b\<newline>'', None)] 0) world0)
     = [start_marker ''t0'', ''a\<newline>'', error_marker ''t1'' disk_full]
   \<and> ''b\<newline>'' \<notin> set (log_buffer (run_build_async ''t0'' ''t1''
       (Child [(''a\<newline>'', Some disk_full), (''b\<newline>'', None)] 0) world0))
   \<and> completed_marker ''t1'' \<notin> set (log_buffer (run_build_async ''t0'' ''t1''
       (Child [(''a\<newline>'', Some disk_full), (''b\<newline>'', None)] 0) world0))"
  by (simp add: run_build_async_def Let_def world0_def append_log_def deque_append_def
                MAX_LOG_LINES_def start_marker_def error_marker_def completed_marker_def
                disk_full_def LF_def)

text \<open>
  Claim C5, amended. When the append of a line to the durable log raises \<open>e\<close>, after
  lines that were all written, the streaming ends there: the buffer holds the start
  marker, the lines read so far with the failing line as the last of them, and one
  \<^verbatim>\<open>Build error\<close> marker carrying \<open>e\<close>. No later line is read, no completion marker
  is appended, and the runner returns.
\<close>

theorem log_write_failure_ends_with_error_marker:
  assumes "\<forall>x \<in> set pre. fst x \<noteq> [] \<and> snd x = None" and "line \<noteq> []"
  shows "log_buffer (run_build_async ts0 ts1 (Child (pre @ (line, Some e) # post) rc) w)
         = appends [] (start_marker ts0 # map fst pre @ [line, error_marker ts1 e])"
proof -
  define w0 where "w0 = w\<lparr>log_buffer := deque_append [] (start_marker ts0),
                          children_spawned := Suc (children_spawned w)\<rparr>"
  obtain r w1 where s: "stream_output w0 (pre @ (line, Some e) # post) = (r, w1)"
    by (cases "stream_output w0 (pre @ (line, Some e) # post)")
  from stream_output_fault [OF assms, of w0 e post] s
  have r: "r = Some e"
    and b: "log_buffer w1 = appends (deque_append [] (start_marker ts0)) (map fst pre @ [line])"
    by (simp_all add: w0_def)
  have "run_build_async ts0 ts1 (Child (pre @ (line, Some e) # post) rc) w
        = w1\<lparr>log_buffer := deque_append (log_buffer w1) (error_marker ts1 e)\<rparr>"
    using s r by (simp add: run_build_async_def Let_def w0_def)
  then show ?thesis
    using b by (simp add: appends_def)
qed

theorem log_write_failure_ends_with_error_marker_witness:
  "log_buffer (run_build_async ''t0'' ''t1''
       (Child ([(''a\<newline>'', None)] @ (''b\<newline>'', Some disk_full) # [(''c\<newline>'', None)]) 3) world0)
     = [start_marker ''t0'', ''a\<newline>'', ''b\<newline>'', error_marker ''t1'' disk_full]"
proof -
  have p: "\<forall>x \<in> set [(''a\<newline>'', None :: exn option)]. fst x \<noteq> [] \<and> snd x = None"
    by simp
  have l: "''b\<newline>'' \<noteq> []"
    by simp
  show ?thesis
    using log_write_failure_ends_with_error_marker
            [OF p l, of "''t0''" "''t1''" disk_full "[(''c\<newline>'', None)]" 3 world0]
    by (simp add: appends_def deque_append_def MAX_LOG_LINES_def)
qed

subsection \<open>Stopping a build\<close>

text \<open>
  Claim C6. \<open>api_stop_build\<close>: when the probe does not report \<open>Running\<close> the answer is
  409 with the message that no build is running, and nothing changes. When it reports
  \<open>Running pid\<close> and the kernel accepts \<^verbatim>\<open>kill(pid, SIGTERM)\<close>, the answer is 200 with
  \<open>success = True\<close>, and exactly one signal has been delivered on top of the earlier
  ones: signal 15 to \<open>pid\<close>; the handler has no step that waits for the child. When it
  reports \<open>Running pid\<close> and the kernel no longer finds the process, the answer is 404
  with the message that the process was not found, and nothing changes.
\<close>

theorem api_stop_build_cases:
  "((\<forall>pid. get_build_status w \<noteq> Running pid) \<longrightarrow>
      api_stop_build ts w =
        (Json 409 [(''success'', JBool False),
                   (''message'', JStr ''No build is currently running'')], w))
   \<and> (\<forall>pid. get_build_status w = Running pid \<and> sys_kill w pid SIGTERM = None \<longrightarrow>
        fst (api_stop_build ts w) =
          Json 200 [(''success'', JBool True),
                    (''message'', JStr (''Stop signal sent to build process (PID: ''
                                         @ str_int pid @ '')''))]
        \<and> signals (snd (api_stop_build ts w)) = signals w @ [(pid, 15)])
   \<and> (\<forall>pid m. get_build_status w = Running pid
                \<and> sys_kill w pid SIGTERM = Some (ProcessLookupError m) \<longrightarrow>
        api_stop_build ts w =
          (Json 404 [(''success'', JBool False),
                     (''message'', JStr ''Build process not found'')], w))"
proof (intro conjI allI impI)
  assume "\<forall>pid. get_build_status w \<noteq> Running pid"
  then show "api_stop_build ts w =
        (Json 409 [(''success'', JBool False),
                   (''message'', JStr ''No build is currently running'')], w)"
    by (cases "get_build_status w") (simp_all add: api_stop_build_def)
next
  fix pid
  assume a: "get_build_status w = Running pid \<and> sys_kill w pid SIGTERM = None"
  then have k: "os_kill w pid SIGTERM = Inr (w\<lparr>signals := signals w @ [(pid, 15)]\<rparr>)"
    using running_pid_fits [of w pid] by (simp add: os_kill_def SIGTERM_def)
  show "fst (api_stop_build ts w) =
          Json 200 [(''success'', JBool True),
                    (''message'', JStr (''Stop signal sent to build process (PID: ''
                                         @ str_int pid @ '')''))]"
    using a k by (simp add: api_stop_build_def)
  show "signals (snd (api_stop_build ts w)) = signals w @ [(pid, 15)]"
    using a k by (simp add: api_stop_build_def)
next
  fix pid m
  assume a: "get_build_status w = Running pid
             \<and> sys_kill w pid SIGTERM = Some (ProcessLookupError m)"
  then have k: "os_kill w pid SIGTERM = Inl (OSError (ProcessLookupError m))"
    using running_pid_fits [of w pid] by (simp add: os_kill_def)
  show "api_stop_build ts w =
          (Json 404 [(''success'', JBool False),
                     (''message'', JStr ''Build process not found'')], w)"
    using a k by (simp add: api_stop_build_def)
qed

lemma str_int_4321: "str_int 4321 = ''4321''"
  by code_simp

theorem api_stop_build_cases_witness:
  "api_stop_build ''t'' world0 =
     (Json 409 [(''success'', JBool False),
                (''message'', JStr ''No build is currently running'')], world0)
   \<and> fst (api_stop_build ''t'' (world0\<lparr>lock_file := Some (new_file ''4321'')\<rparr>)) =
          Json 200 [(''success'', JBool True),
                    (''message'', JStr ''Stop signal sent to build process (PID: 4321)'')]
   \<and> signals (snd (api_stop_build ''t'' (world0\<lparr>lock_file := Some (new_file ''4321'')\<rparr>)))
        = [(4321, 15)]
   \<and> api_stop_build ''t''
        (world0\<lparr>lock_file := Some (new_file ''4321''), sys_kill := exits_before_signal\<rparr>) =
     (Json 404 [(''success'', JBool False),
                (''message'', JStr ''Build process not found'')],
      world0\<lparr>lock_file := Some (new_file ''4321''), sys_kill := exits_before_signal\<rparr>)"
proof -
  have i: "\<forall>pid. get_build_status world0 \<noteq> Running pid"
    by (simp add: eval_defs)
  have r: "get_build_status (world0\<lparr>lock_file := Some (new_file ''4321'')\<rparr>) = Running 4321"
    by (simp add: eval_defs)
  have r': "get_build_status
              (world0\<lparr>lock_file := Some (new_file ''4321''), sys_kill := exits_before_signal\<rparr>)
            = Running 4321"
    by (simp add: eval_defs exits_before_signal_def)
  show ?thesis
    using i r r' api_stop_build_cases [of world0 "''t''"]
      api_stop_build_cases [of "world0\<lparr>lock_file := Some (new_file ''4321'')\<rparr>" "''t''"]
      api_stop_build_cases
        [of "world0\<lparr>lock_file := Some (new_file ''4321''), sys_kill := exits_before_signal\<rparr>"
            "''t''"]
    by (simp add: world0_def exits_before_signal_def SIGTERM_def str_int_4321)
qed

subsection \<open>Clearing the lock\<close>

lemma clear_lock_not_running:
  "\<forall>pid. get_build_status w \<noteq> Running pid \<Longrightarrow>
   api_clear_lock w =
     (case lock_file w of
        Some f \<Rightarrow>
          (case unlink f of
             None \<Rightarrow> (Json 200 [(''success'', JBool True),
                                (''message'', JStr ''Lock file cleared successfully'')],
                      w\<lparr>lock_file := None\<rparr>)
           | Some e \<Rightarrow> (Json 500 [(''success'', JBool False),
                                  (''message'', JStr (''Failed to clear lock: '' @ str_exn e))], w))
      | None \<Rightarrow> (Json 200 [(''success'', JBool True),
                            (''message'', JStr ''No lock file to clear'')], w))"
  by (cases "get_build_status w") (simp_all add: api_clear_lock_def)

lemma no_marker_idle: "get_build_status (w\<lparr>lock_file := None\<rparr>) = Idle"
  by (simp add: get_build_status_def)

text \<open>
  Claim C7, as stated, fails: the marker names a dead process (the state is stale) and
  cannot be unlinked. \<open>api_clear_lock\<close> answers 500 and the marker stays.
\<close>

theorem clear_lock_stale_marker_not_removable:
  "get_build_status (world0\<lparr>lock_file := Some (sticky (new_file ''4321'')), sys_kill := no_process\<rparr>)
     = StaleLock 4321
   \<and> api_clear_lock (world0\<lparr>lock_file := Some (sticky (new_file ''4321'')), sys_kill := no_process\<rparr>)
     = (Json 500 [(''success'', JBool False),
                  (''message'', JStr ''Failed to clear lock: [Errno 1] Operation not permitted'')],
        world0\<lparr>lock_file := Some (sticky (new_file ''4321'')), sys_kill := no_process\<rparr>)"
  by (simp add: eval_defs api_clear_lock_def)

text \<open>
  Claim C7, amended. \<open>api_clear_lock\<close>: in state \<open>Running\<close> the answer is 409 and the
  marker stays. In state \<open>Idle\<close> there is no marker and the answer is 200, nothing
  changed. In state \<open>StaleLock\<close>, when the unlink succeeds the marker is gone, the
  answer is 200 and the next probe reports \<open>Idle\<close>; when the unlink raises, the answer
  is 500 with the message of the exception and the marker stays.
\<close>

theorem api_clear_lock_cases:
  "(\<forall>pid. get_build_status w = Running pid \<longrightarrow>
      api_clear_lock w =
        (Json 409 [(''success'', JBool False),
                   (''message'', JStr ''Cannot clear lock while build is running'')], w))
   \<and> (get_build_status w = Idle \<longrightarrow>
        api_clear_lock w =
          (Json 200 [(''success'', JBool True), (''message'', JStr ''No lock file to clear'')], w))
   \<and> (\<forall>pid f. get_build_status w = StaleLock pid \<and> lock_file w = Some f \<and> unlink f = None \<longrightarrow>
        api_clear_lock w =
          (Json 200 [(''success'', JBool True),
                     (''message'', JStr ''Lock file cleared successfully'')],
           w\<lparr>lock_file := None\<rparr>)
        \<and> get_build_status (snd (api_clear_lock w)) = Idle)
   \<and> (\<forall>pid f e. get_build_status w = StaleLock pid \<and> lock_file w = Some f \<and> unlink f = Some e \<longrightarrow>
        api_clear_lock w =
          (Json 500 [(''success'', JBool False),
                     (''message'', JStr (''Failed to clear lock: '' @ str_exn e))], w))"
proof (intro conjI allI impI)
  fix pid
  assume "get_build_status w = Running pid"
  then show "api_clear_lock w =
        (Json 409 [(''success'', JBool False),
                   (''message'', JStr ''Cannot clear lock while build is running'')], w)"
    by (simp add: api_clear_lock_def)
next
  assume i: "get_build_status w = Idle"
  then have "lock_file w = None" by (simp only: idle_iff_no_marker)
  with i show "api_clear_lock w =
          (Json 200 [(''success'', JBool True), (''message'', JStr ''No lock file to clear'')], w)"
    by (simp add: api_clear_lock_def)
next
  fix pid f
  assume a: "get_build_status w = StaleLock pid \<and> lock_file w = Some f \<and> unlink f = None"
  then show c: "api_clear_lock w =
          (Json 200 [(''success'', JBool True),
                     (''message'', JStr ''Lock file cleared successfully'')],
           w\<lparr>lock_file := None\<rparr>)"
    by (simp add: api_clear_lock_def)
  show "get_build_status (snd (api_clear_lock w)) = Idle"
    by (simp add: c no_marker_idle)
next
  fix pid f e
  assume "get_build_status w = StaleLock pid \<and> lock_file w = Some f \<and> unlink f = Some e"
  then show "api_clear_lock w =
          (Json 500 [(''success'', JBool False),
                     (''message'', JStr (''Failed to clear lock: '' @ str_exn e))], w)"
    by (simp add: api_clear_lock_def)
qed

theorem api_clear_lock_cases_witness:
  "api_clear_lock (world0\<lparr>lock_file := Some (new_file ''4321'')\<rparr>) =
        (Json 409 [(''success'', JBool False),
                   (''message'', JStr ''Cannot clear lock while build is running'')],
         world0\<lparr>lock_file := Some (new_file ''4321'')\<rparr>)
   \<and> api_clear_lock world0 =
          (Json 200 [(''success'', JBool True), (''message'', JStr ''No lock file to clear'')], world0)
   \<and> api_clear_lock (world0\<lparr>lock_file := Some (new_file ''4321''), sys_kill := no_process\<rparr>) =
          (Json 200 [(''success'', JBool True),
                     (''message'', JStr ''Lock file cleared successfully'')],
           world0\<lparr>sys_kill := no_process\<rparr>)
   \<and> get_build_status (snd (api_clear_lock (world0\<lparr>lock_file := Some (new_file ''4321''), sys_kill := no_process\<rparr>))) = Idle
   \<and> status_code (fst (api_clear_lock (world0\<lparr>lock_file := Some (sticky (new_file ''4321'')), sys_kill := no_process\<rparr>))) = 500"
proof -
  have r: "get_build_status (world0\<lparr>lock_file := Some (new_file ''4321'')\<rparr>) = Running 4321"
    by (simp add: eval_defs)
  have i: "get_build_status world0 = Idle"
    by (simp add: eval_defs)
  have s: "get_build_status (world0\<lparr>lock_file := Some (new_file ''4321''), sys_kill := no_process\<rparr>) = StaleLock 4321"
    by (simp add: eval_defs)
  have s': "get_build_status (world0\<lparr>lock_file := Some (sticky (new_file ''4321'')), sys_kill := no_process\<rparr>) = StaleLock 4321"
    by (simp add: eval_defs)
  show ?thesis
    using r i s s'
      api_clear_lock_cases [of "world0\<lparr>lock_file := Some (new_file ''4321'')\<rparr>"]
      api_clear_lock_cases [of world0]
      api_clear_lock_cases [of "world0\<lparr>lock_file := Some (new_file ''4321''), sys_kill := no_process\<rparr>"]
      api_clear_lock_cases [of "world0\<lparr>lock_file := Some (sticky (new_file ''4321'')), sys_kill := no_process\<rparr>"]
    by (simp add: eval_defs)
qed

text \<open>
  Claim C10, as stated, fails: a marker that holds no integer (the state is error) and
  cannot be unlinked is not cleared. \<open>api_clear_lock\<close> answers 500 and the marker stays.
\<close>

theorem clear_lock_corrupt_marker_not_removable:
  "get_build_status (world0\<lparr>lock_file := Some (sticky (new_file ''abc''))\<rparr>)
     = Error (''invalid literal for int() with base 10: '' @ [CHR 0x27] @ ''abc'' @ [CHR 0x27])
   \<and> api_clear_lock (world0\<lparr>lock_file := Some (sticky (new_file ''abc''))\<rparr>)
     = (Json 500 [(''success'', JBool False),
                  (''message'', JStr ''Failed to clear lock: [Errno 1] Operation not permitted'')],
        world0\<lparr>lock_file := Some (sticky (new_file ''abc''))\<rparr>)"
  by (simp add: eval_defs api_clear_lock_def)

text \<open>
  Claim C10, amended. In state \<open>Error\<close> \<open>api_clear_lock\<close> does not refuse (the answer
  is never 409), since the guard tests for \<open>Running\<close> alone, and the marker exists. When
  the unlink succeeds the marker is gone, the answer is 200 and the next probe reports
  \<open>Idle\<close>; when the unlink raises, the answer is 500 with the message of the exception
  and the marker stays.
\<close>

theorem clear_lock_corrupt_marker:
  "get_build_status w = Error m \<Longrightarrow>
   status_code (fst (api_clear_lock w)) \<noteq> 409
   \<and> (\<exists>f. lock_file w = Some f
        \<and> (unlink f = None \<longrightarrow>
             api_clear_lock w =
               (Json 200 [(''success'', JBool True),
                          (''message'', JStr ''Lock file cleared successfully'')],
                w\<lparr>lock_file := None\<rparr>)
             \<and> get_build_status (snd (api_clear_lock w)) = Idle)
        \<and> (\<forall>e. unlink f = Some e \<longrightarrow>
             api_clear_lock w =
               (Json 500 [(''success'', JBool False),
                          (''message'', JStr (''Failed to clear lock: '' @ str_exn e))], w)))"
proof -
  assume a: "get_build_status w = Error m"
  then obtain f where f: "lock_file w = Some f"
    by (cases "lock_file w") (simp_all add: get_build_status_def)
  from a have n: "\<forall>pid. get_build_status w \<noteq> Running pid" by simp
  show ?thesis
    using f by (cases "unlink f") (simp_all add: clear_lock_not_running [OF n] no_marker_idle)
qed

theorem clear_lock_corrupt_marker_witness:
  "api_clear_lock (world0\<lparr>lock_file := Some (new_file ''abc'')\<rparr>) =
      (Json 200 [(''success'', JBool True),
                 (''message'', JStr ''Lock file cleared successfully'')], world0)
   \<and> get_build_status (snd (api_clear_lock (world0\<lparr>lock_file := Some (new_file ''abc'')\<rparr>))) = Idle
   \<and> status_code (fst (api_clear_lock (world0\<lparr>lock_file := Some (sticky (new_file ''abc''))\<rparr>))) = 500"
proof -
  have e: "get_build_status (world0\<lparr>lock_file := Some (new_file ''abc'')\<rparr>)
       = Error (''invalid literal for int() with base 10: '' @ [CHR 0x27] @ ''abc'' @ [CHR 0x27])"
    by (simp add: eval_defs)
  have e': "get_build_status (world0\<lparr>lock_file := Some (sticky (new_file ''abc''))\<rparr>)
       = Error (''invalid literal for int() with base 10: '' @ [CHR 0x27] @ ''abc'' @ [CHR 0x27])"
    by (simp add: eval_defs)
  show ?thesis
    using clear_lock_corrupt_marker [OF e] clear_lock_corrupt_marker [OF e']
    by (simp add: eval_defs)
qed

end
